theory Spec2Isabelle
  imports Main "HOL-Library.Sublist"
begin

section \<open>The State pattern: a TCP connection (Behavioural/state.cpp)\<close>

text \<open>
  The file declares an abstract class \<open>State\<close> with four virtual methods and three
  concrete subclasses without fields, and a context class \<open>TCPConnection\<close> that holds a
  \<open>std::shared_ptr<State>\<close> and forwards each of its four methods to the object
  behind the pointer. Every virtual method has return type \<open>void\<close> and only writes one
  line to \<open>std::cout\<close>. The model returns the text a method writes as its result, and
  passes the connection object explicitly.
\<close>

subsection \<open>Data\<close>

text \<open>
  An object of one of the three concrete subclasses carries no data, so it is
  represented by its dynamic type.
\<close>

datatype State = ClosedState | ListeningState | EstablishedState

text \<open>
  The only field of \<open>TCPConnection\<close> is the shared pointer \<open>state\<close>. A shared pointer
  may be empty: \<open>None\<close> is the empty pointer, \<open>Some s\<close> points to an object of
  dynamic type \<open>s\<close>.
\<close>

record TCPConnection =
  state :: "State option"

text \<open>
  Calling a method through an empty pointer is undefined behaviour in the source; the
  model makes it an error value.
\<close>

datatype error = NullPointer

text \<open>\<open>std::endl\<close> writes a newline.\<close>

definition endl :: string where
  "endl = [CHR 0x0A]"

subsection \<open>The concrete states\<close>

definition ClosedState_open :: string where
  "ClosedState_open = ''Transitioning from Closed to Listening state.'' @ endl"

definition ClosedState_close :: string where
  "ClosedState_close = ''Already in Closed state.'' @ endl"

definition ClosedState_sendData :: "string \<Rightarrow> string" where
  "ClosedState_sendData data = ''Cannot send data. Connection is closed.'' @ endl"

definition ClosedState_receiveData :: "string \<Rightarrow> string" where
  "ClosedState_receiveData data = ''Cannot receive data. Connection is closed.'' @ endl"

definition ListeningState_open :: string where
  "ListeningState_open = ''Already in Listening state.'' @ endl"

definition ListeningState_close :: string where
  "ListeningState_close = ''Transitioning from Listening to Closed state.'' @ endl"

definition ListeningState_sendData :: "string \<Rightarrow> string" where
  "ListeningState_sendData data =
     ''Cannot send data. Connection is in Listening state.'' @ endl"

definition ListeningState_receiveData :: "string \<Rightarrow> string" where
  "ListeningState_receiveData data =
     ''Transitioning from Listening to Established state.'' @ endl"

definition EstablishedState_open :: string where
  "EstablishedState_open = ''Already in Established state.'' @ endl"

definition EstablishedState_close :: string where
  "EstablishedState_close = ''Transitioning from Established to Closed state.'' @ endl"

definition EstablishedState_sendData :: "string \<Rightarrow> string" where
  "EstablishedState_sendData data = ''Sending data: '' @ data @ endl"

definition EstablishedState_receiveData :: "string \<Rightarrow> string" where
  "EstablishedState_receiveData data = ''Receiving data: '' @ data @ endl"

subsection \<open>Virtual dispatch\<close>

text \<open>
  A call \<open>state->open()\<close> runs the override of the dynamic type of the object.
\<close>

fun State_open :: "State \<Rightarrow> string" where
  "State_open ClosedState = ClosedState_open"
| "State_open ListeningState = ListeningState_open"
| "State_open EstablishedState = EstablishedState_open"

fun State_close :: "State \<Rightarrow> string" where
  "State_close ClosedState = ClosedState_close"
| "State_close ListeningState = ListeningState_close"
| "State_close EstablishedState = EstablishedState_close"

fun State_sendData :: "State \<Rightarrow> string \<Rightarrow> string" where
  "State_sendData ClosedState data = ClosedState_sendData data"
| "State_sendData ListeningState data = ListeningState_sendData data"
| "State_sendData EstablishedState data = EstablishedState_sendData data"

fun State_receiveData :: "State \<Rightarrow> string \<Rightarrow> string" where
  "State_receiveData ClosedState data = ClosedState_receiveData data"
| "State_receiveData ListeningState data = ListeningState_receiveData data"
| "State_receiveData EstablishedState data = EstablishedState_receiveData data"

subsection \<open>The context\<close>

text \<open>The constructor stores the pointer it is given.\<close>

definition TCPConnection_ctor :: "State option \<Rightarrow> TCPConnection" where
  "TCPConnection_ctor initialState = \<lparr>state = initialState\<rparr>"

definition TCPConnection_setState :: "State option \<Rightarrow> TCPConnection \<Rightarrow> TCPConnection" where
  "TCPConnection_setState newState c = c\<lparr>state := newState\<rparr>"

text \<open>
  Each of the four methods consists of the forwarding call alone. It returns the text
  written and the connection object as it is after the call.
\<close>

definition TCPConnection_open :: "TCPConnection \<Rightarrow> error + string \<times> TCPConnection" where
  "TCPConnection_open c =
     (case state c of None \<Rightarrow> Inl NullPointer | Some s \<Rightarrow> Inr (State_open s, c))"

definition TCPConnection_close :: "TCPConnection \<Rightarrow> error + string \<times> TCPConnection" where
  "TCPConnection_close c =
     (case state c of None \<Rightarrow> Inl NullPointer | Some s \<Rightarrow> Inr (State_close s, c))"

definition TCPConnection_sendData ::
    "string \<Rightarrow> TCPConnection \<Rightarrow> error + string \<times> TCPConnection" where
  "TCPConnection_sendData data c =
     (case state c of None \<Rightarrow> Inl NullPointer | Some s \<Rightarrow> Inr (State_sendData s data, c))"

definition TCPConnection_receiveData ::
    "string \<Rightarrow> TCPConnection \<Rightarrow> error + string \<times> TCPConnection" where
  "TCPConnection_receiveData data c =
     (case state c of None \<Rightarrow> Inl NullPointer | Some s \<Rightarrow> Inr (State_receiveData s data, c))"

subsection \<open>Sequences of calls\<close>

text \<open>
  A client drives a connection by a sequence of calls of the four methods. A call is
  named by its method and its argument.
\<close>

datatype Call = Open | Close | SendData string | ReceiveData string

fun call :: "Call \<Rightarrow> TCPConnection \<Rightarrow> error + string \<times> TCPConnection" where
  "call Open c = TCPConnection_open c"
| "call Close c = TCPConnection_close c"
| "call (SendData data) c = TCPConnection_sendData data c"
| "call (ReceiveData data) c = TCPConnection_receiveData data c"

text \<open>
  \<open>run\<close> performs the calls in order. Its result lists, for each call, the text written
  and the connection as it is when the call has returned.
\<close>

fun run :: "Call list \<Rightarrow> TCPConnection \<Rightarrow> error + (string \<times> TCPConnection) list" where
  "run [] c = Inr []"
| "run (a # as) c =
     (case call a c of
        Inl e \<Rightarrow> Inl e
      | Inr (report, c') \<Rightarrow>
          (case run as c' of
             Inl e \<Rightarrow> Inl e
           | Inr rest \<Rightarrow> Inr ((report, c') # rest)))"

text \<open>The text that an object of dynamic type \<open>s\<close> writes for a call.\<close>

fun State_call :: "State \<Rightarrow> Call \<Rightarrow> string" where
  "State_call s Open = State_open s"
| "State_call s Close = State_close s"
| "State_call s (SendData data) = State_sendData s data"
| "State_call s (ReceiveData data) = State_receiveData s data"

text \<open>
  The states that the file declares, and the property of a connection that its pointer
  refers to exactly one of them (an empty pointer refers to none).
\<close>

definition declared_states :: "State list" where
  "declared_states = [ClosedState, ListeningState, EstablishedState]"

definition in_exactly_one_state :: "TCPConnection \<Rightarrow> bool" where
  "in_exactly_one_state c =
     (length (filter (\<lambda>s. state c = Some s) declared_states) = 1)"

subsection \<open>Reading the text written\<close>

text \<open>
  The outcome of a call is visible only in the line it writes. A refusal starts with
  \<open>Cannot\<close>; data that is sent or received is announced with a fixed heading followed
  by the data.
\<close>

definition rejected :: "string \<Rightarrow> bool" where
  "rejected report = prefix ''Cannot '' report"

definition send_accepted :: "string \<Rightarrow> bool" where
  "send_accepted report = prefix ''Sending data: '' report"

definition receive_accepted :: "string \<Rightarrow> bool" where
  "receive_accepted report = prefix ''Receiving data: '' report"

subsection \<open>The client code\<close>

text \<open>
  \<open>main\<close> creates a connection in the closed state, and then calls \<open>sendData\<close>,
  \<open>receiveData\<close>, \<open>setState(listeningState)\<close>, \<open>receiveData\<close>,
  \<open>setState(establishedState)\<close>, \<open>sendData\<close>, \<open>receiveData\<close> and \<open>close\<close>.
\<close>

definition main :: "error + (string \<times> TCPConnection) list" where
  "main =
     (case run [SendData ''Hello'', ReceiveData ''Hi''] (TCPConnection_ctor (Some ClosedState)) of
        Inl e \<Rightarrow> Inl e
      | Inr t1 \<Rightarrow>
          (case run [ReceiveData ''Hello'']
                  (TCPConnection_setState (Some ListeningState) (snd (last t1))) of
             Inl e \<Rightarrow> Inl e
           | Inr t2 \<Rightarrow>
               (case run [SendData ''Hello'', ReceiveData ''Hi'', Close]
                       (TCPConnection_setState (Some EstablishedState) (snd (last t2))) of
                  Inl e \<Rightarrow> Inl e
                | Inr t3 \<Rightarrow> Inr (t1 @ t2 @ t3))))"

section \<open>Basic facts\<close>

lemmas handler_defs =
  ClosedState_open_def ClosedState_close_def ClosedState_sendData_def
  ClosedState_receiveData_def ListeningState_open_def ListeningState_close_def
  ListeningState_sendData_def ListeningState_receiveData_def EstablishedState_open_def
  EstablishedState_close_def EstablishedState_sendData_def EstablishedState_receiveData_def

lemmas method_defs =
  TCPConnection_open_def TCPConnection_close_def TCPConnection_sendData_def
  TCPConnection_receiveData_def

lemma call_Some: "state c = Some s \<Longrightarrow> call a c = Inr (State_call s a, c)"
  by (cases a) (simp_all add: method_defs)

lemma call_None: "state c = None \<Longrightarrow> call a c = Inl NullPointer"
  by (cases a) (simp_all add: method_defs)

lemma run_Some:
  "state c = Some s \<Longrightarrow> run as c = Inr (map (\<lambda>a. (State_call s a, c)) as)"
  by (induction as) (simp_all add: call_Some)

lemma run_length: "state c = Some s \<Longrightarrow> run as c = Inr t \<Longrightarrow> length t = length as"
  by (simp add: run_Some) auto

lemma state_ctor: "state (TCPConnection_ctor p) = p"
  by (simp add: TCPConnection_ctor_def)

lemma setState_eq_ctor: "TCPConnection_setState p c = TCPConnection_ctor p"
  by (simp add: TCPConnection_setState_def TCPConnection_ctor_def)

lemma rejected_reports:
  "rejected (State_sendData s data) = (s \<noteq> EstablishedState)"
  "rejected (State_receiveData s data) = (s = ClosedState)"
  by (cases s; simp add: rejected_def handler_defs)+

lemma send_accepted_report:
  "send_accepted (State_sendData s data) = (s = EstablishedState)"
  by (cases s) (simp_all add: send_accepted_def handler_defs)

lemma receive_accepted_report:
  "receive_accepted (State_receiveData s data) = (s = EstablishedState)"
  by (cases s) (simp_all add: receive_accepted_def handler_defs)

section \<open>What the four methods do to the state\<close>

text \<open>
  C6. No method of the connection changes the state it holds: for each of the three
  states and each of \<open>open\<close>, \<open>close\<close>, \<open>sendData\<close> and \<open>receiveData\<close>, the
  connection after the call is the connection before it, also after every call of
  any sequence of calls. The lines that announce a transition are written with no
  change of state. The state changes by \<open>setState\<close> alone, which stores its argument.
\<close>

theorem handlers_keep_state:
  "TCPConnection_open (TCPConnection_ctor (Some s)) =
     Inr (State_open s, TCPConnection_ctor (Some s))
   \<and> TCPConnection_close (TCPConnection_ctor (Some s)) =
     Inr (State_close s, TCPConnection_ctor (Some s))
   \<and> TCPConnection_sendData data (TCPConnection_ctor (Some s)) =
     Inr (State_sendData s data, TCPConnection_ctor (Some s))
   \<and> TCPConnection_receiveData data (TCPConnection_ctor (Some s)) =
     Inr (State_receiveData s data, TCPConnection_ctor (Some s))
   \<and> run as (TCPConnection_ctor (Some s)) =
     Inr (map (\<lambda>a. (State_call s a, TCPConnection_ctor (Some s))) as)
   \<and> State_open ClosedState = ''Transitioning from Closed to Listening state.'' @ endl
   \<and> State_receiveData ListeningState data =
     ''Transitioning from Listening to Established state.'' @ endl
   \<and> State_close EstablishedState = ''Transitioning from Established to Closed state.'' @ endl
   \<and> state (TCPConnection_setState newState c) = newState"
proof -
  have st: "state (TCPConnection_ctor (Some s)) = Some s"
    by (rule state_ctor)
  have "run as (TCPConnection_ctor (Some s)) =
      Inr (map (\<lambda>a. (State_call s a, TCPConnection_ctor (Some s))) as)"
    using st by (rule run_Some)
  moreover have "state (TCPConnection_setState newState c) = newState"
    by (simp add: TCPConnection_setState_def)
  ultimately show ?thesis
    by (simp add: method_defs st handler_defs)
qed

text \<open>
  C5. \<open>sendData\<close> writes the line that announces sent data if and only if the
  connection is in the established state. In the closed and in the listening state it
  writes a refusal, and in every state it leaves the connection as it was.
\<close>

theorem send_accepted_iff_Established:
  "\<exists>report. TCPConnection_sendData p (TCPConnection_ctor (Some s)) =
       Inr (report, TCPConnection_ctor (Some s))
     \<and> send_accepted report = (s = EstablishedState)
     \<and> rejected report = (s = ClosedState \<or> s = ListeningState)"
proof -
  have "rejected (State_sendData s p) = (s = ClosedState \<or> s = ListeningState)"
    by (cases s) (simp_all add: rejected_def handler_defs)
  then show ?thesis
    by (simp add: TCPConnection_sendData_def state_ctor send_accepted_report)
qed

text \<open>
  C8. Every pair of a state and a call has a defined outcome: with the pointer set to
  any of the three states, each of \<open>open\<close>, \<open>close\<close>, \<open>sendData\<close> and
  \<open>receiveData\<close> returns, with a non-empty line written, for every argument. No call
  ends in the error value, and a refusal is a line of text like any other.
\<close>

theorem methods_total:
  "(\<exists>report c'. TCPConnection_open (TCPConnection_ctor (Some s)) = Inr (report, c')
      \<and> report \<noteq> [])
   \<and> (\<exists>report c'. TCPConnection_close (TCPConnection_ctor (Some s)) = Inr (report, c')
      \<and> report \<noteq> [])
   \<and> (\<exists>report c'. TCPConnection_sendData p (TCPConnection_ctor (Some s)) = Inr (report, c')
      \<and> report \<noteq> [])
   \<and> (\<exists>report c'. TCPConnection_receiveData p (TCPConnection_ctor (Some s)) = Inr (report, c')
      \<and> report \<noteq> [])
   \<and> (\<exists>report c'. call a (TCPConnection_ctor (Some s)) = Inr (report, c') \<and> report \<noteq> [])
   \<and> (\<exists>t. run as (TCPConnection_ctor (Some s)) = Inr t \<and> length t = length as)"
proof -
  have nonempty: "State_call s b \<noteq> []" for b
    by (cases b; cases s) (simp_all add: handler_defs endl_def)
  have "call a (TCPConnection_ctor (Some s)) = Inr (State_call s a, TCPConnection_ctor (Some s))"
    by (simp add: call_Some state_ctor)
  then have one: "\<exists>report c'. call a (TCPConnection_ctor (Some s)) = Inr (report, c')
      \<and> report \<noteq> []"
    using nonempty by simp
  have many: "\<exists>t. run as (TCPConnection_ctor (Some s)) = Inr t \<and> length t = length as"
    by (simp add: run_Some state_ctor)
  have "State_open s \<noteq> []" "State_close s \<noteq> []"
      "State_sendData s p \<noteq> []" "State_receiveData s p \<noteq> []"
    using nonempty [of Open] nonempty [of Close] nonempty [of "SendData p"]
      nonempty [of "ReceiveData p"]
    by simp_all
  then show ?thesis
    using one many by (simp add: method_defs state_ctor)
qed

text \<open>
  C9. \<open>setState\<close> with a pointer to any of the three states replaces the state held,
  whatever it was (also an empty pointer), and cannot fail. Every call after it, alone
  or in a sequence, is answered by the new state, exactly as on a connection
  constructed in that state.
\<close>

theorem setState_overwrites:
  "state (TCPConnection_setState (Some newState) c) = Some newState
   \<and> TCPConnection_open (TCPConnection_setState (Some newState) c) =
       Inr (State_open newState, TCPConnection_setState (Some newState) c)
   \<and> TCPConnection_close (TCPConnection_setState (Some newState) c) =
       Inr (State_close newState, TCPConnection_setState (Some newState) c)
   \<and> TCPConnection_sendData data (TCPConnection_setState (Some newState) c) =
       Inr (State_sendData newState data, TCPConnection_setState (Some newState) c)
   \<and> TCPConnection_receiveData data (TCPConnection_setState (Some newState) c) =
       Inr (State_receiveData newState data, TCPConnection_setState (Some newState) c)
   \<and> run as (TCPConnection_setState (Some newState) c) =
       Inr (map (\<lambda>a. (State_call newState a, TCPConnection_setState (Some newState) c)) as)
   \<and> run as (TCPConnection_setState (Some newState) c) = run as (TCPConnection_ctor (Some newState))"
proof -
  have st: "state (TCPConnection_setState (Some newState) c) = Some newState"
    by (simp add: TCPConnection_setState_def)
  have "run as (TCPConnection_setState (Some newState) c) =
      Inr (map (\<lambda>a. (State_call newState a, TCPConnection_setState (Some newState) c)) as)"
    using st by (rule run_Some)
  moreover have "run as (TCPConnection_setState (Some newState) c) =
      run as (TCPConnection_ctor (Some newState))"
    by (simp add: setState_eq_ctor)
  ultimately show ?thesis
    using st by (simp add: method_defs)
qed

text \<open>
  C10. The argument of \<open>sendData\<close> and of \<open>receiveData\<close> is never examined. In every
  state, two calls that differ in the argument alone leave the same connection and
  write lines of the same kind (a refusal or not, an announcement of data or not). The
  two lines are equal, except in the established state, where they are the same
  heading followed by the respective argument.
\<close>

theorem payload_not_inspected:
  "(\<exists>r1 r2 c'. TCPConnection_sendData p1 (TCPConnection_ctor (Some s)) = Inr (r1, c')
      \<and> TCPConnection_sendData p2 (TCPConnection_ctor (Some s)) = Inr (r2, c')
      \<and> rejected r1 = rejected r2
      \<and> send_accepted r1 = send_accepted r2
      \<and> (r1 = r2 \<or> s = EstablishedState
           \<and> r1 = ''Sending data: '' @ p1 @ endl \<and> r2 = ''Sending data: '' @ p2 @ endl))
   \<and> (\<exists>r1 r2 c'. TCPConnection_receiveData p1 (TCPConnection_ctor (Some s)) = Inr (r1, c')
      \<and> TCPConnection_receiveData p2 (TCPConnection_ctor (Some s)) = Inr (r2, c')
      \<and> rejected r1 = rejected r2
      \<and> receive_accepted r1 = receive_accepted r2
      \<and> (r1 = r2 \<or> s = EstablishedState
           \<and> r1 = ''Receiving data: '' @ p1 @ endl \<and> r2 = ''Receiving data: '' @ p2 @ endl))"
proof -
  have send: "State_sendData s p1 = State_sendData s p2 \<or> s = EstablishedState
      \<and> State_sendData s p1 = ''Sending data: '' @ p1 @ endl
      \<and> State_sendData s p2 = ''Sending data: '' @ p2 @ endl"
    by (cases s) (simp_all add: handler_defs)
  have recv: "State_receiveData s p1 = State_receiveData s p2 \<or> s = EstablishedState
      \<and> State_receiveData s p1 = ''Receiving data: '' @ p1 @ endl
      \<and> State_receiveData s p2 = ''Receiving data: '' @ p2 @ endl"
    by (cases s) (simp_all add: handler_defs)
  show ?thesis
    using send recv
    by (simp add: TCPConnection_sendData_def TCPConnection_receiveData_def state_ctor
        rejected_reports send_accepted_report receive_accepted_report)
qed

text \<open>
  C7. From each of the three states, every finite sequence of calls runs to its end,
  and after each call of the sequence the connection is in exactly one of the states
  \<open>ClosedState\<close>, \<open>ListeningState\<close> and \<open>EstablishedState\<close>.
\<close>

theorem always_in_a_declared_state:
  "\<exists>t. run as (TCPConnection_ctor (Some s)) = Inr t
     \<and> length t = length as
     \<and> list_all (\<lambda>(report, c). in_exactly_one_state c
          \<and> state c \<in> {Some ClosedState, Some ListeningState, Some EstablishedState}) t"
proof -
  have one: "in_exactly_one_state (TCPConnection_ctor (Some s))"
    by (cases s) (simp_all add: in_exactly_one_state_def declared_states_def state_ctor)
  have mem: "state (TCPConnection_ctor (Some s)) \<in>
      {Some ClosedState, Some ListeningState, Some EstablishedState}"
    by (cases s) (simp_all add: state_ctor)
  have "run as (TCPConnection_ctor (Some s)) =
      Inr (map (\<lambda>a. (State_call s a, TCPConnection_ctor (Some s))) as)"
    by (simp add: run_Some state_ctor)
  then show ?thesis
    using one mem by (simp add: list_all_iff)
qed

theorem always_in_a_declared_state_witness:
  "\<exists>t. run [Open, ReceiveData ''Hello'', SendData ''Hi'', Close]
         (TCPConnection_ctor (Some ListeningState)) = Inr t
     \<and> length t = 4
     \<and> list_all (\<lambda>(report, c). in_exactly_one_state c
          \<and> state c \<in> {Some ClosedState, Some ListeningState, Some EstablishedState}) t"
  using always_in_a_declared_state
    [of "[Open, ReceiveData ''Hello'', SendData ''Hi'', Close]" ListeningState]
  by (simp add: eval_nat_numeral)

lemma in_exactly_one_state_empty: "\<not> in_exactly_one_state (TCPConnection_ctor None)"
  by (simp add: in_exactly_one_state_def declared_states_def state_ctor)

section \<open>Where the state stays although a transition is announced\<close>

lemma main_trace:
  "main = Inr
     [(''Cannot send data. Connection is closed.'' @ endl, TCPConnection_ctor (Some ClosedState)),
      (''Cannot receive data. Connection is closed.'' @ endl,
         TCPConnection_ctor (Some ClosedState)),
      (''Transitioning from Listening to Established state.'' @ endl,
         TCPConnection_ctor (Some ListeningState)),
      (''Sending data: Hello'' @ endl, TCPConnection_ctor (Some EstablishedState)),
      (''Receiving data: Hi'' @ endl, TCPConnection_ctor (Some EstablishedState)),
      (''Transitioning from Established to Closed state.'' @ endl,
         TCPConnection_ctor (Some EstablishedState))]"
  by (simp add: main_def method_defs handler_defs state_ctor setState_eq_ctor)

text \<open>
  C1. \<open>close\<close> is claimed to leave the connection in the closed state from every
  state. The code does so from \<open>ClosedState\<close> only: from \<open>ListeningState\<close> and from
  \<open>EstablishedState\<close> it writes the line that announces the transition and the
  connection stays as it was, also when \<open>close\<close> is called twice. The run of \<open>main\<close>
  ends with such a call and leaves the connection in the established state.
\<close>

theorem close_keeps_Listening_and_Established:
  "TCPConnection_close (TCPConnection_ctor (Some ListeningState)) =
     Inr (''Transitioning from Listening to Closed state.'' @ endl,
          TCPConnection_ctor (Some ListeningState))
   \<and> TCPConnection_close (TCPConnection_ctor (Some EstablishedState)) =
     Inr (''Transitioning from Established to Closed state.'' @ endl,
          TCPConnection_ctor (Some EstablishedState))
   \<and> run [Close, Close] (TCPConnection_ctor (Some ListeningState)) =
     Inr [(''Transitioning from Listening to Closed state.'' @ endl,
           TCPConnection_ctor (Some ListeningState)),
          (''Transitioning from Listening to Closed state.'' @ endl,
           TCPConnection_ctor (Some ListeningState))]
   \<and> TCPConnection_ctor (Some ListeningState) \<noteq> TCPConnection_ctor (Some ClosedState)
   \<and> TCPConnection_ctor (Some EstablishedState) \<noteq> TCPConnection_ctor (Some ClosedState)
   \<and> TCPConnection_close (TCPConnection_ctor (Some ClosedState)) =
     Inr (''Already in Closed state.'' @ endl, TCPConnection_ctor (Some ClosedState))
   \<and> (\<exists>t. main = Inr t \<and> state (snd (last t)) = Some EstablishedState)"
  by (simp add: main_trace method_defs handler_defs state_ctor)
    (simp add: TCPConnection_ctor_def)

text \<open>
  C2. \<open>open\<close> is claimed to take the connection from the closed to the listening
  state. The code writes the line that announces this and leaves the connection in
  the closed state. In the listening state \<open>open\<close> changes nothing, as claimed.
\<close>

theorem open_keeps_Closed:
  "TCPConnection_open (TCPConnection_ctor (Some ClosedState)) =
     Inr (''Transitioning from Closed to Listening state.'' @ endl,
          TCPConnection_ctor (Some ClosedState))
   \<and> TCPConnection_ctor (Some ClosedState) \<noteq> TCPConnection_ctor (Some ListeningState)
   \<and> TCPConnection_open (TCPConnection_ctor (Some ListeningState)) =
     Inr (''Already in Listening state.'' @ endl, TCPConnection_ctor (Some ListeningState))"
  by (simp add: method_defs handler_defs state_ctor) (simp add: TCPConnection_ctor_def)

text \<open>
  C3. \<open>receiveData\<close> is claimed to take the connection from the listening to the
  established state. The code writes the line that announces this and leaves the
  connection in the listening state, for every argument. In the established state
  the connection stays as it is and the line written repeats the argument, as claimed.
\<close>

theorem receiveData_keeps_Listening:
  "TCPConnection_receiveData data (TCPConnection_ctor (Some ListeningState)) =
     Inr (''Transitioning from Listening to Established state.'' @ endl,
          TCPConnection_ctor (Some ListeningState))
   \<and> TCPConnection_ctor (Some ListeningState) \<noteq> TCPConnection_ctor (Some EstablishedState)
   \<and> TCPConnection_receiveData data (TCPConnection_ctor (Some EstablishedState)) =
     Inr (''Receiving data: '' @ data @ endl, TCPConnection_ctor (Some EstablishedState))"
  by (simp add: method_defs handler_defs state_ctor) (simp add: TCPConnection_ctor_def)

text \<open>
  C4. From the closed state, the calls \<open>open\<close>, \<open>receiveData x\<close>, \<open>sendData y\<close>,
  \<open>close\<close> are claimed to pass through the listening and the established state, so
  that the data is sent. In the code the connection is in the closed state after
  every one of the four calls, and \<open>sendData y\<close> is refused: no call of the sequence
  announces sent data.
\<close>

theorem round_trip_send_refused:
  "run [Open, ReceiveData x, SendData y, Close] (TCPConnection_ctor (Some ClosedState)) =
     Inr [(''Transitioning from Closed to Listening state.'' @ endl,
           TCPConnection_ctor (Some ClosedState)),
          (''Cannot receive data. Connection is closed.'' @ endl,
           TCPConnection_ctor (Some ClosedState)),
          (''Cannot send data. Connection is closed.'' @ endl,
           TCPConnection_ctor (Some ClosedState)),
          (''Already in Closed state.'' @ endl, TCPConnection_ctor (Some ClosedState))]
   \<and> rejected (''Cannot send data. Connection is closed.'' @ endl)
   \<and> (\<exists>t. run [Open, ReceiveData x, SendData y, Close] (TCPConnection_ctor (Some ClosedState))
          = Inr t
        \<and> length (filter (\<lambda>(report, c). send_accepted report) t) = 0)"
  by (simp add: method_defs handler_defs state_ctor rejected_def send_accepted_def)

end
